theory Spec2Isabelle
  imports Main
begin

section \<open>Python values\<close>

text \<open>
  The exceptions the data-loading module can raise.  Every fallible operation of the
  model returns \<open>py_error + 'a\<close>, with \<open>Inl\<close> for a raised exception.
  \<open>LoadFailed\<close> is the bare \<open>Exception("load train_jsonl failed.")\<close> of
  \<open>CustomDataset.__init__\<close>; \<open>OSError\<close> stands for what \<open>Image.open\<close>
  raises besides \<open>UnidentifiedImageError\<close>.  \<open>UnicodeDecodeError\<close> is raised by
  reading a text file whose bytes do not decode, \<open>RecursionError\<close> by a call nested
  deeper than the interpreter's recursion limit.
\<close>

datatype py_error =
    IndexError
  | TypeError
  | ValueError
  | KeyError
  | AttributeError
  | UnidentifiedImageError
  | OSError
  | LoadFailed
  | UnicodeDecodeError
  | RecursionError

text \<open>
  Indexing a Python list with an integer: a negative index counts from the end, and an
  index outside \<open>[-n, n)\<close> raises \<open>IndexError\<close>.
\<close>

definition py_index :: "'a list \<Rightarrow> int \<Rightarrow> py_error + 'a" where
  "py_index xs i =
     (let n = int (length xs); j = (if i < 0 then i + n else i)
      in if 0 \<le> j \<and> j < n then Inr (xs ! nat j) else Inl IndexError)"

text \<open>
  A tensor is a shape with its elements.  \<open>tensor_mul t c\<close> is the source's
  broadcast product \<open>t * c\<close> with a scalar; \<open>zeros_like\<close> is the all-zero tensor of
  the same shape.
\<close>

record 'a tensor =
  shape :: "nat list"
  elems :: "'a list"

definition tensor_mul :: "'a::times tensor \<Rightarrow> 'a \<Rightarrow> 'a tensor" where
  "tensor_mul t c = t\<lparr>elems := map (\<lambda>v. v * c) (elems t)\<rparr>"

definition zeros_like :: "'a::zero tensor \<Rightarrow> 'a tensor" where
  "zeros_like t = t\<lparr>elems := replicate (length (elems t)) 0\<rparr>"

section \<open>ImageDataset\<close>

text \<open>
  \<open>ImageDataset.__getitem__(idx)\<close> opens \<open>img_list[idx]\<close> and applies \<open>prepare\<close>
  inside \<open>try ... except Exception\<close>: every exception, the \<open>IndexError\<close> of the
  list access included, is logged and the call returns \<open>None\<close>.  The parameter
  \<open>open_prepare\<close> is \<open>prepare(Image.open(p))\<close>, with \<open>None\<close> when either raises.
\<close>

definition ImageDataset_getitem ::
    "('p \<Rightarrow> 'a tensor option) \<Rightarrow> 'p list \<Rightarrow> int \<Rightarrow> 'a tensor option" where
  "ImageDataset_getitem open_prepare img_list idx =
     (case py_index img_list idx of
        Inl e \<Rightarrow> None
      | Inr p \<Rightarrow> open_prepare p)"

section \<open>The collate policy of LazyDataset\<close>

text \<open>
  A raw batch item is \<open>(image or None, name)\<close>; an item of the filtered list
  \<open>_batch\<close> (here \<open>out\<close>) always has an image.
\<close>

type_synonym 'a batch_item = "'a tensor option \<times> string"
type_synonym 'a kept_item = "'a tensor \<times> string"

text \<open>
  One iteration of \<open>for i, x in enumerate(batch)\<close>.  \<open>_batch[-1]\<close> on an empty
  list raises \<open>IndexError\<close>, and \<open>batch[1][0] * 0\<close> raises \<open>TypeError\<close> when that
  image is \<open>None\<close>; neither is caught by the function's \<open>except AttributeError\<close>.
\<close>

definition collate_step ::
    "('a::{times,zero}) batch_item list \<Rightarrow> nat \<Rightarrow> 'a batch_item \<Rightarrow> 'a kept_item list
     \<Rightarrow> py_error + 'a kept_item list" where
  "collate_step batch i x out =
     (case x of
        (Some img, name) \<Rightarrow> Inr (out @ [(img, name)])
      | (None, name) \<Rightarrow>
          if name \<noteq> [] then
            (if i > 0 then
               (if out = [] then Inl IndexError
                else Inr (butlast out @ [(fst (last out), name)]))
             else if length batch > 1 then
               (case fst (batch ! 1) of
                  None \<Rightarrow> Inl TypeError
                | Some t \<Rightarrow> Inr (out @ [(tensor_mul t 0, name)]))
             else Inr out)
          else Inr out)"

fun collate_loop ::
    "('a::{times,zero}) batch_item list \<Rightarrow> nat \<Rightarrow> 'a batch_item list \<Rightarrow> 'a kept_item list
     \<Rightarrow> py_error + 'a kept_item list" where
  "collate_loop batch i [] out = Inr out"
| "collate_loop batch i (x # xs) out =
     (case collate_step batch i x out of
        Inl e \<Rightarrow> Inl e
      | Inr out' \<Rightarrow> collate_loop batch (Suc i) xs out')"

text \<open>
  The function's results: the pair \<open>(None, None)\<close>, or what
  \<open>torch.utils.data.dataloader.default_collate\<close> makes of the filtered list.
\<close>

datatype 'b collated = NoneNone | Collated 'b

text \<open>
  \<open>except AttributeError: pass\<close> followed by \<open>return None, None\<close>; any other
  exception leaves the function.
\<close>

definition except_AttributeError :: "py_error + 'b \<Rightarrow> py_error + 'b collated" where
  "except_AttributeError r =
     (case r of
        Inl e \<Rightarrow> if e = AttributeError then Inr NoneNone else Inl e
      | Inr b \<Rightarrow> Inr (Collated b))"

text \<open>
  \<open>LazyDataset.ignore_none_collate(batch)\<close>.  The library function
  \<open>default_collate\<close> is the parameter of the same name.
\<close>

definition ignore_none_collate ::
    "(('a::{times,zero}) kept_item list \<Rightarrow> py_error + 'b) \<Rightarrow> 'a batch_item list option
     \<Rightarrow> py_error + 'b collated" where
  "ignore_none_collate default_collate batch =
     (case batch of
        None \<Rightarrow> Inr NoneNone
      | Some b \<Rightarrow>
          (case collate_loop b 0 b [] of
             Inl e \<Rightarrow> except_AttributeError (Inl e)
           | Inr out \<Rightarrow>
               if length out = 0 then Inr NoneNone
               else except_AttributeError (default_collate out)))"

section \<open>LazyDataset\<close>

text \<open>
  The object's fields.  \<open>lazy_init_fn\<close> is what the call \<open>self.init_fn()\<close>, the
  rasterizer applied to the document and its page subset, returns; \<open>lazy_dataset\<close> is
  the image list of the \<open>ImageDataset\<close> held in \<open>self.dataset\<close>.  The counter
  \<open>lazy_rasterized\<close> is not a field of the source: it counts the calls of
  \<open>self.init_fn()\<close>, so that claims about rasterization can be stated.
\<close>

record 'p LazyDataset =
  lazy_name :: string
  lazy_init_fn :: "'p list"
  lazy_dataset :: "'p list option"
  lazy_size :: nat
  lazy_rasterized :: nat

text \<open>
  \<open>LazyDataset.__init__(pdf, prepare, pages)\<close>; \<open>pdf_page_count\<close> is
  \<open>len(pypdf.PdfReader(pdf).pages)\<close>.
\<close>

definition LazyDataset_init ::
    "string \<Rightarrow> nat \<Rightarrow> 'p list \<Rightarrow> int list option \<Rightarrow> 'p LazyDataset" where
  "LazyDataset_init pdf pdf_page_count rasterized pages =
     \<lparr>lazy_name = pdf,
      lazy_init_fn = rasterized,
      lazy_dataset = None,
      lazy_size = (case pages of None \<Rightarrow> pdf_page_count | Some ps \<Rightarrow> length ps),
      lazy_rasterized = 0\<rparr>"

definition LazyDataset_len :: "'p LazyDataset \<Rightarrow> nat" where
  "LazyDataset_len self = lazy_size self"

text \<open>
  \<open>LazyDataset.__getitem__(i)\<close>, returning the result and the object after the call.
  The page set is built before the range test, whenever \<open>i == 0\<close> or nothing is held.
\<close>

definition LazyDataset_getitem ::
    "('p \<Rightarrow> 'a tensor option) \<Rightarrow> 'p LazyDataset \<Rightarrow> int
     \<Rightarrow> (py_error + 'a batch_item) \<times> 'p LazyDataset" where
  "LazyDataset_getitem open_prepare self i =
     (let self1 =
        (if i = 0 \<or> lazy_dataset self = None
         then self\<lparr>lazy_dataset := Some (lazy_init_fn self),
                   lazy_rasterized := Suc (lazy_rasterized self)\<rparr>
         else self)
      in if i \<le> int (lazy_size self1) \<and> i \<ge> 0 then
           (case lazy_dataset self1 of
              None \<Rightarrow> (Inl TypeError, self1)
            | Some img_list \<Rightarrow>
                (Inr (ImageDataset_getitem open_prepare img_list i,
                      if i = int (lazy_size self1) - 1 then lazy_name self1 else []),
                 self1))
         else (Inl IndexError, self1))"

text \<open>
  A sequence of \<open>get\<close> calls on one object, in the given order; the results are
  dropped and the object after the last call is returned.
\<close>

fun LazyDataset_gets ::
    "('p \<Rightarrow> 'a tensor option) \<Rightarrow> 'p LazyDataset \<Rightarrow> int list \<Rightarrow> 'p LazyDataset" where
  "LazyDataset_gets open_prepare self [] = self"
| "LazyDataset_gets open_prepare self (i # rest) =
     LazyDataset_gets open_prepare (snd (LazyDataset_getitem open_prepare self i :: (py_error + 'a batch_item) \<times> 'p LazyDataset)) rest"

section \<open>SciPDFDataset\<close>

text \<open>What \<open>orjson.loads\<close> returns.\<close>

datatype json =
    JNull
  | JBool bool
  | JNum int
  | JStr string
  | JArr "json list"
  | JObj "(string \<times> json) list"

text \<open>
  \<open>d.pop(k)\<close> on a dict (\<open>KeyError\<close> when the key is missing), and on any parsed
  value: a list's \<open>pop\<close> refuses a string argument, the other values have no \<open>pop\<close>.
\<close>

definition dict_pop ::
    "string \<Rightarrow> (string \<times> json) list \<Rightarrow> py_error + (json \<times> (string \<times> json) list)" where
  "dict_pop k d =
     (case map_of d k of
        None \<Rightarrow> Inl KeyError
      | Some v \<Rightarrow> Inr (v, filter (\<lambda>kv. fst kv \<noteq> k) d))"

definition json_pop ::
    "string \<Rightarrow> json \<Rightarrow> py_error + (json \<times> (string \<times> json) list)" where
  "json_pop k data =
     (case data of
        JObj d \<Rightarrow> dict_pop k d
      | JArr xs \<Rightarrow> Inl TypeError
      | _ \<Rightarrow> Inl AttributeError)"

text \<open>
  A sample \<open>{"image": ..., "ground_truth": ..., "meta": ...}\<close>.  The empty sample
  (\<open>empty_sample = None\<close>) is \<open>None\<close> of the option type around it.
\<close>

record ('img, 'g, 'm) sample =
  sample_image :: "'img option"
  ground_truth :: 'g
  meta :: 'm

type_synonym 'img sci_sample = "('img, json, (string \<times> json) list) sample"

text \<open>
  The files the store reads: the bytes of the record file, the parser, and the image
  files, addressed by the components of \<open>path_to_root / root_name / image\<close>.
  The record file is opened in text mode: the text layer reads the bytes in chunks of
  at most \<open>chunk_size\<close> bytes (8192 in CPython) and decodes each chunk as a whole;
  \<open>decodable c\<close> says that the decoder accepts the chunk \<open>c\<close>.  A decoded line is
  identified with its bytes.
\<close>

record 'img sci_env =
  file_text :: string
  chunk_size :: nat
  decodable :: "string \<Rightarrow> bool"
  loads :: "string \<Rightarrow> json option"
  path_exists :: "string list \<Rightarrow> bool"
  image_open :: "string list \<Rightarrow> py_error + 'img"

text \<open>
  The object's fields.  \<open>sci_dataset_file\<close> is \<open>None\<close> until the file is opened and
  then holds the handle's position.
\<close>

record SciPDFDataset =
  sci_path_to_root :: string
  sci_root_name :: string
  sci_seek_map :: "nat list"
  sci_dataset_length :: nat
  sci_dataset_file :: "nat option"

text \<open>
  The end of \<open>SciPDFDataset.__init__\<close>: the seek map is loaded, or a missing file
  raises \<open>ValueError\<close>.  \<open>seek_file\<close> is the content of the \<open>.seek.map\<close> file,
  \<open>None\<close> when it does not exist.
\<close>

definition SciPDFDataset_init ::
    "string \<Rightarrow> string \<Rightarrow> nat list option \<Rightarrow> py_error + SciPDFDataset" where
  "SciPDFDataset_init path_to_root root_name seek_file =
     (case seek_file of
        None \<Rightarrow> Inl ValueError
      | Some seek_map \<Rightarrow>
          Inr \<lparr>sci_path_to_root = path_to_root,
               sci_root_name = root_name,
               sci_seek_map = seek_map,
               sci_dataset_length = length seek_map,
               sci_dataset_file = None\<rparr>)"

definition SciPDFDataset_len :: "SciPDFDataset \<Rightarrow> nat" where
  "SciPDFDataset_len self = sci_dataset_length self"

text \<open>
  \<open>readline()\<close> on the bytes \<open>data\<close> that follow the handle's position: chunks are
  read and decoded until one holds a newline or the file ends, and the line goes up to
  and including the newline.  A chunk that does not decode raises
  \<open>UnicodeDecodeError\<close>, also when the bytes at fault lie after the line's newline.
\<close>

function read_chunks ::
    "(string \<Rightarrow> bool) \<Rightarrow> nat \<Rightarrow> string \<Rightarrow> string \<Rightarrow> py_error + string" where
  "read_chunks dec n acc data =
     (let c = take n data
      in if c = [] then Inr acc
         else if \<not> dec c then Inl UnicodeDecodeError
         else if CHR 0x0A \<in> set c
           then Inr (acc @ takeWhile (\<lambda>b. b \<noteq> CHR 0x0A) c @ [CHR 0x0A])
         else read_chunks dec n (acc @ c) (drop n data))"
  by pat_completeness auto
termination
  by (relation "measure (\<lambda>(dec, n, acc, data). length data)") auto

text \<open>\<open>seek(position)\<close> followed by \<open>readline()\<close>.\<close>

definition readline_at :: "'img sci_env \<Rightarrow> nat \<Rightarrow> py_error + string" where
  "readline_at env pos =
     read_chunks (decodable env) (chunk_size env) [] (drop pos (file_text env))"

text \<open>
  \<open>SciPDFDataset.__getitem__(index)\<close>, with the object after the call.  The read
  stands outside the \<open>try\<close> around \<open>orjson.loads\<close>, so its exception leaves the
  call; of the exceptions of \<open>Image.open\<close> only \<open>UnidentifiedImageError\<close> is caught.
\<close>

definition SciPDFDataset_getitem ::
    "'img sci_env \<Rightarrow> SciPDFDataset \<Rightarrow> int
     \<Rightarrow> (py_error + 'img sci_sample option) \<times> SciPDFDataset" where
  "SciPDFDataset_getitem env self index =
     (case py_index (sci_seek_map self) index of
        Inl e \<Rightarrow> (Inl e, self)
      | Inr position \<Rightarrow>
          (case readline_at env position of
             Inl e \<Rightarrow> (Inl e, self\<lparr>sci_dataset_file := Some position\<rparr>)
           | Inr line \<Rightarrow>
               (let self1 = self\<lparr>sci_dataset_file := Some (position + length line)\<rparr>
                in case loads env line of
                     None \<Rightarrow> (Inr None, self1)
                   | Some data \<Rightarrow>
                       (case json_pop ''image'' data of
                          Inl e \<Rightarrow> (Inl e, self1)
                        | Inr (ref, data1) \<Rightarrow>
                            (case ref of
                               JStr p \<Rightarrow>
                                 (let img_path = [sci_path_to_root self, sci_root_name self, p]
                                  in if \<not> path_exists env img_path then (Inr None, self1)
                                     else
                                       (case image_open env img_path of
                                          Inl e \<Rightarrow>
                                            if e = UnidentifiedImageError
                                            then (Inr None, self1)
                                            else (Inl e, self1)
                                        | Inr img \<Rightarrow>
                                            (case dict_pop ''markdown'' data1 of
                                               Inl e \<Rightarrow> (Inl e, self1)
                                             | Inr (gt, data2) \<Rightarrow>
                                                 (Inr (Some \<lparr>sample_image = Some img,
                                                              ground_truth = gt,
                                                              meta = data2\<rparr>),
                                                  self1))))
                             | _ \<Rightarrow> (Inl TypeError, self1))))))"

section \<open>CustomDataset\<close>

text \<open>
  \<open>os.path.join(a, b)\<close> on POSIX paths, and \<open>s.replace(old, new)\<close> for a
  one-character \<open>old\<close>.
\<close>

definition os_path_join :: "string \<Rightarrow> string \<Rightarrow> string" where
  "os_path_join a b =
     (if b \<noteq> [] \<and> hd b = CHR ''/'' then b
      else if a = [] \<or> last a = CHR ''/'' then a @ b
      else a @ ''/'' @ b)"

definition str_replace :: "char \<Rightarrow> string \<Rightarrow> string \<Rightarrow> string" where
  "str_replace old new s = concat (map (\<lambda>c. if c = old then new else [c]) s)"

text \<open>
  The files the list-backed store reads: \<open>fs_readlines p\<close> is
  \<open>open(p).readlines()\<close>, \<open>fs_image_open p\<close> is \<open>Image.open(p)\<close> and
  \<open>fs_read p\<close> is \<open>open(p, 'r').read()\<close>, each \<open>None\<close> when the call raises.
\<close>

record 'img custom_fs =
  fs_readlines :: "string \<Rightarrow> string list option"
  fs_image_open :: "string \<Rightarrow> 'img option"
  fs_read :: "string \<Rightarrow> string option"

record CustomDataset =
  custom_image_list_path :: string
  custom_sentences_path :: string
  custom_image_path :: string
  custom_split :: string
  custom_img_list :: "string list"

type_synonym 'img custom_sample = "('img, string, (string \<times> string) list) sample"

definition CustomDataset_init ::
    "'img custom_fs \<Rightarrow> string \<Rightarrow> string \<Rightarrow> string \<Rightarrow> string \<Rightarrow> py_error + CustomDataset" where
  "CustomDataset_init fs image_list_path sentences_path image_path split =
     (case fs_readlines fs image_list_path of
        None \<Rightarrow> Inl LoadFailed
      | Some ls \<Rightarrow>
          Inr \<lparr>custom_image_list_path = image_list_path,
               custom_sentences_path = sentences_path,
               custom_image_path = image_path,
               custom_split = split,
               custom_img_list = ls\<rparr>)"

definition CustomDataset_len :: "CustomDataset \<Rightarrow> nat" where
  "CustomDataset_len self =
     (if custom_split self = ''train'' then length (custom_img_list self) else 0)"

definition CustomDataset_getitem ::
    "'img custom_fs \<Rightarrow> CustomDataset \<Rightarrow> int \<Rightarrow> py_error + 'img custom_sample option" where
  "CustomDataset_getitem fs self idx =
     (let meta_list = (if custom_split self = ''train'' then custom_img_list self else [[]])
      in case py_index meta_list idx of
           Inl e \<Rightarrow> Inl e
         | Inr entry \<Rightarrow>
             (let pic_path_short = str_replace (CHR 0x0A) [] entry;
                  pic_path = os_path_join (custom_image_path self) pic_path_short
              in case fs_image_open fs pic_path of
                   None \<Rightarrow> Inr None
                 | Some img \<Rightarrow>
                     (let txt_path_short = str_replace (CHR ''/'') ''_'' pic_path_short @ ''.txt'';
                          txt_path = os_path_join (custom_sentences_path self) txt_path_short
                      in case fs_read fs txt_path of
                           None \<Rightarrow> Inr None
                         | Some sentence \<Rightarrow>
                             Inr (Some \<lparr>sample_image = Some img,
                                        ground_truth = sentence,
                                        meta = [(''img_path'', pic_path)]\<rparr>))))"

text \<open>\<open>CustomDataset.__iter__\<close>: \<open>self[i]\<close> for \<open>i\<close> in \<open>range(len(self))\<close>.\<close>

definition CustomDataset_iter ::
    "'img custom_fs \<Rightarrow> CustomDataset \<Rightarrow> (py_error + 'img custom_sample option) list" where
  "CustomDataset_iter fs self =
     map (\<lambda>i. CustomDataset_getitem fs self (int i)) [0..<CustomDataset_len self]"

section \<open>NougatDataset\<close>

text \<open>
  The random module is a tape of raw draws, consumed from the front; an exhausted
  tape is the result \<open>None\<close> (the run is cut off, nothing is known of its end).
  \<open>randint a b\<close> raises \<open>ValueError\<close> on an empty range and otherwise returns a
  value of \<open>[a, b]\<close>; \<open>random_lt_tenth\<close> is the test \<open>random.random() < 0.1\<close>,
  an event of one draw in ten.
\<close>

type_synonym tape = "nat list"

definition randint :: "int \<Rightarrow> int \<Rightarrow> tape \<Rightarrow> (py_error + int \<times> tape) option" where
  "randint a b t =
     (if b < a then Some (Inl ValueError)
      else (case t of
              [] \<Rightarrow> None
            | d # t' \<Rightarrow> Some (Inr (a + int d mod (b - a + 1), t'))))"

definition random_lt_tenth :: "tape \<Rightarrow> (bool \<times> tape) option" where
  "random_lt_tenth t = (case t of [] \<Rightarrow> None | d # t' \<Rightarrow> Some (d mod 10 = 0, t'))"

text \<open>
  The collaborators held by \<open>nougat_model\<close>: the encoder's \<open>prepare_input\<close>, the
  decoder's tokenizer (returning \<open>input_ids\<close> and \<open>attention_mask\<close>) with its
  vocabulary size \<open>len(tokenizer)\<close>, and the \<open>size\<close> attribute of an image.
\<close>

record ('img, 't) nougat_model =
  prepare_input :: "'img \<Rightarrow> bool \<Rightarrow> 't"
  tokenizer :: "string \<Rightarrow> nat \<Rightarrow> int list \<times> int list"
  tokenizer_len :: nat
  image_size :: "'img \<Rightarrow> nat \<times> nat"

record NougatDataset =
  nougat_max_length :: nat
  nougat_split :: string
  nougat_perturb :: bool
  nougat_dataset :: CustomDataset
  nougat_dataset_length :: nat

definition NougatDataset_init ::
    "'img custom_fs \<Rightarrow> (string \<rightharpoonup> string) \<Rightarrow> string \<Rightarrow> string \<Rightarrow> string \<Rightarrow> nat \<Rightarrow> string
     \<Rightarrow> py_error + NougatDataset" where
  "NougatDataset_init fs environ image_list_path sentences_path image_path max_length split =
     (case CustomDataset_init fs image_list_path sentences_path image_path split of
        Inl e \<Rightarrow> Inl e
      | Inr d \<Rightarrow>
          Inr \<lparr>nougat_max_length = max_length,
               nougat_split = split,
               nougat_perturb =
                 (case environ ''NOUGAT_PERTURB'' of None \<Rightarrow> False | Some v \<Rightarrow> v \<noteq> []),
               nougat_dataset = d,
               nougat_dataset_length = CustomDataset_len d\<rparr>)"

definition NougatDataset_len :: "NougatDataset \<Rightarrow> nat" where
  "NougatDataset_len self = nougat_dataset_length self"

text \<open>
  The loop \<open>while random.random() < 0.1\<close> of the perturbation: a \<open>ValueError\<close> of
  either \<open>randint\<close> breaks the loop, an index outside \<open>input_ids\<close> raises.
\<close>

function perturb_loop ::
    "nat \<Rightarrow> int \<Rightarrow> int list \<Rightarrow> tape \<Rightarrow> ((py_error + int list) \<times> tape) option" where
  "perturb_loop vocab unpadded_length input_ids t =
     (case random_lt_tenth t of
        None \<Rightarrow> None
      | Some (again, t1) \<Rightarrow>
          if \<not> again then Some (Inr input_ids, t1)
          else
            (case randint 1 (unpadded_length - 2) t1 of
               None \<Rightarrow> None
             | Some (Inl e) \<Rightarrow> Some (Inr input_ids, t1)
             | Some (Inr (pos, t2)) \<Rightarrow>
                 (case randint 23 (int vocab - 1) t2 of
                    None \<Rightarrow> None
                  | Some (Inl e) \<Rightarrow> Some (Inr input_ids, t2)
                  | Some (Inr (token, t3)) \<Rightarrow>
                      if nat pos < length input_ids
                      then perturb_loop vocab unpadded_length (input_ids[nat pos := token]) t3
                      else Some (Inl IndexError, t3))))"
  by pat_completeness auto
termination
  by (relation "measure (\<lambda>(vocab, unpadded_length, input_ids, t). length t)")
     (auto simp: random_lt_tenth_def randint_def split: list.splits if_splits)

text \<open>
  The body of \<open>NougatDataset.__getitem__\<close> after the retry test, for a sample that is
  not the empty sample: the triple \<open>(input_tensor, input_ids, attention_mask)\<close>.
\<close>

definition NougatDataset_convert ::
    "('img, 't) nougat_model \<Rightarrow> NougatDataset \<Rightarrow> 'img custom_sample \<Rightarrow> tape
     \<Rightarrow> ((py_error + 't option \<times> int list \<times> int list) \<times> tape) option" where
  "NougatDataset_convert model self smp t =
     (let input_tensor =
            (case sample_image smp of
               None \<Rightarrow> None
             | Some img \<Rightarrow>
                 if fst (image_size model img) * snd (image_size model img) = 0 then None
                 else Some (prepare_input model img (nougat_split self = ''train'')));
          tokenizer_out = tokenizer model (ground_truth smp) (nougat_max_length self);
          input_ids = fst tokenizer_out;
          attention_mask = snd tokenizer_out
      in if nougat_split self = ''train'' \<and> nougat_perturb self then
           (case perturb_loop (tokenizer_len model) (sum_list attention_mask) input_ids t of
              None \<Rightarrow> None
            | Some (Inl e, t') \<Rightarrow> Some (Inl e, t')
            | Some (Inr ids, t') \<Rightarrow> Some (Inr (input_tensor, ids, attention_mask), t'))
         else Some (Inr (input_tensor, input_ids, attention_mask), t))"

text \<open>
  \<open>NougatDataset.__getitem__(idx)\<close>: an empty sample from the store is retried at
  \<open>random.randint(0, self.dataset_length - 1)\<close>, by a recursive call without a cap.
  \<open>frames\<close> is the number of nested calls of \<open>__getitem__\<close> that the
  interpreter's recursion limit still allows: with none left, the recursive call raises
  \<open>RecursionError\<close>, after its argument was drawn.  The result \<open>None\<close> is a run cut
  off by the end of the tape.
\<close>

function NougatDataset_getitem ::
    "('img, 't) nougat_model \<Rightarrow> 'img custom_fs \<Rightarrow> NougatDataset \<Rightarrow> nat \<Rightarrow> tape \<Rightarrow> int
     \<Rightarrow> ((py_error + 't option \<times> int list \<times> int list) \<times> tape) option" where
  "NougatDataset_getitem model fs self frames t idx =
     (case CustomDataset_getitem fs (nougat_dataset self) idx of
        Inl e \<Rightarrow> Some (Inl e, t)
      | Inr None \<Rightarrow>
          (case randint 0 (int (nougat_dataset_length self) - 1) t of
             None \<Rightarrow> None
           | Some (Inl e) \<Rightarrow> Some (Inl e, t)
           | Some (Inr (j, t')) \<Rightarrow>
               (case frames of
                  0 \<Rightarrow> Some (Inl RecursionError, t')
                | Suc frames' \<Rightarrow> NougatDataset_getitem model fs self frames' t' j))
      | Inr (Some smp) \<Rightarrow> NougatDataset_convert model self smp t)"
  by pat_completeness auto
termination
  by (relation "measure (\<lambda>(model, fs, self, frames, t, idx). frames)") auto

section \<open>Example objects\<close>

text \<open>Two page images, a five-page document and its preparation function.\<close>

definition ex_imgA :: "int tensor" where
  "ex_imgA = \<lparr>shape = [1, 2], elems = [7, 8]\<rparr>"

definition ex_imgB :: "int tensor" where
  "ex_imgB = \<lparr>shape = [1, 2], elems = [5, 9]\<rparr>"

definition ex_batch :: "int batch_item list" where
  "ex_batch = [(Some ex_imgA, []), (None, ''doc1''), (Some ex_imgB, [])]"

definition ex_prepare :: "int \<Rightarrow> int tensor option" where
  "ex_prepare p = Some \<lparr>shape = [1], elems = [p]\<rparr>"

definition ex_lazy :: "int LazyDataset" where
  "ex_lazy = LazyDataset_init ''doc.pdf'' 5 [10, 20, 30, 40, 50] None"

definition ex_lazy_held :: "int LazyDataset" where
  "ex_lazy_held = ex_lazy\<lparr>lazy_dataset := Some [10, 20, 30, 40, 50], lazy_rasterized := 1\<rparr>"

text \<open>
  A record file of two lines, the first of which does not parse, with its seek map.
\<close>

definition ex_env :: "nat sci_env" where
  "ex_env =
     \<lparr>file_text = ''bad'' @ [CHR 0x0A] @ ''good'' @ [CHR 0x0A],
      chunk_size = 8192,
      decodable = (\<lambda>c. CHR 0xFF \<notin> set c),
      loads = (\<lambda>s. if s = ''good'' @ [CHR 0x0A]
                    then Some (JObj [(''image'', JStr ''a.png''), (''markdown'', JStr ''text''),
                                     (''page'', JNum 3)])
                    else None),
      path_exists = (\<lambda>p. True),
      image_open = (\<lambda>p. Inr 1)\<rparr>"

definition ex_sci :: SciPDFDataset where
  "ex_sci =
     \<lparr>sci_path_to_root = ''data'', sci_root_name = ''arxiv'', sci_seek_map = [0, 4],
      sci_dataset_length = 2, sci_dataset_file = None\<rparr>"

definition ex_record :: "nat sci_sample" where
  "ex_record = \<lparr>sample_image = Some 1, ground_truth = JStr ''text'', meta = [(''page'', JNum 3)]\<rparr>"







definition ex_fs :: "unit custom_fs" where
  "ex_fs =
     \<lparr>fs_readlines = (\<lambda>p. Some [''a.png'' @ [CHR 0x0A], ''b.png'' @ [CHR 0x0A]]),
      fs_image_open = (\<lambda>p. if p = ''img/b.png'' then Some () else None),
      fs_read = (\<lambda>p. Some ''text'')\<rparr>"


definition ex_nougat :: "string \<Rightarrow> NougatDataset" where
  "ex_nougat split =
     \<lparr>nougat_max_length = 4, nougat_split = split, nougat_perturb = False,
      nougat_dataset =
        \<lparr>custom_image_list_path = ''list.txt'', custom_sentences_path = ''sent'',
         custom_image_path = ''img'', custom_split = split,
         custom_img_list = [''a.png'' @ [CHR 0x0A], ''b.png'' @ [CHR 0x0A]]\<rparr>,
      nougat_dataset_length = (if split = ''train'' then 2 else 0)\<rparr>"

section \<open>The collate policy: document names of unusable pages\<close>

lemma tensor_mul_zero: "tensor_mul t (0::'a::mult_zero) = zeros_like t"
  by (simp add: tensor_mul_def zeros_like_def map_replicate_const)

lemma collate_loop_snoc:
  "collate_loop batch i (xs @ [x]) out =
     (case collate_loop batch i xs out of
        Inl e \<Rightarrow> Inl e
      | Inr out' \<Rightarrow> collate_step batch (i + length xs) x out')"
  by (induction xs arbitrary: i out) (auto split: sum.splits)

text \<open>
  Claim C1.  Let item \<open>i\<close> of a batch have no image and a non-empty name, and let the
  items before it leave a non-empty filtered list \<open>out\<close>.  Then the loop, run through
  item \<open>i\<close>, leaves \<open>out\<close> with the name of its last item replaced by that name, and no
  slot is added.  In particular the batch \<open>[(imgA, ""), (None, "doc1"), (imgB, "")]\<close>
  is collated from the two items \<open>[(imgA, "doc1"), (imgB, "")]\<close>.
\<close>

theorem collate_name_forwarded:
  "(i < length batch \<and> batch ! i = (None, name) \<and> name \<noteq> []
      \<and> collate_loop batch 0 (take i batch) [] = Inr out \<and> out \<noteq> []
    \<longrightarrow> collate_loop batch 0 (take (Suc i) batch) []
          = Inr (butlast out @ [(fst (last out), name)])
        \<and> length (butlast out @ [(fst (last out), name)]) = length out)
   \<and> ignore_none_collate dc (Some [(Some imgA, []), (None, ''doc1''), (Some imgB, [])])
       = except_AttributeError (dc [(imgA, ''doc1''), (imgB, [])])"
proof (intro conjI impI)
  assume h: "i < length batch \<and> batch ! i = (None, name) \<and> name \<noteq> []
      \<and> collate_loop batch 0 (take i batch) [] = Inr out \<and> out \<noteq> []"
  have pos: "0 < i"
  proof (rule ccontr)
    assume "\<not> 0 < i"
    then have "i = 0" by simp
    with h show False by auto
  qed
  have tk: "take (Suc i) batch = take i batch @ [batch ! i]"
    using h by (simp add: take_Suc_conv_app_nth)
  have len: "length (take i batch) = i"
    using h by simp
  show "collate_loop batch 0 (take (Suc i) batch) []
          = Inr (butlast out @ [(fst (last out), name)])"
    using h pos by (simp add: tk collate_loop_snoc len collate_step_def)
  show "length (butlast out @ [(fst (last out), name)]) = length out"
    using h by (cases out rule: rev_cases) simp_all
next
  show "ignore_none_collate dc (Some [(Some imgA, []), (None, ''doc1''), (Some imgB, [])])
       = except_AttributeError (dc [(imgA, ''doc1''), (imgB, [])])"
    by (simp add: ignore_none_collate_def collate_step_def)
qed

theorem collate_name_forwarded_witness:
  "1 < length ex_batch \<and> ex_batch ! 1 = (None, ''doc1'') \<and> ''doc1'' \<noteq> []
   \<and> collate_loop ex_batch 0 (take 1 ex_batch) [] = Inr [(ex_imgA, [])]
   \<and> collate_loop ex_batch 0 (take 2 ex_batch) [] = Inr [(ex_imgA, ''doc1'')]
   \<and> ignore_none_collate Inr (Some ex_batch)
       = Inr (Collated [(ex_imgA, ''doc1''), (ex_imgB, [])])"
  using collate_name_forwarded [where i = 1 and batch = ex_batch and name = "''doc1''"
      and out = "[(ex_imgA, [])]" and dc = Inr and imgA = ex_imgA and imgB = ex_imgB]
  by (simp add: ex_batch_def collate_step_def except_AttributeError_def numeral_2_eq_2)

text \<open>
  The placeholder is made when the name-bearing item is the first of the batch and the
  second item has an image: the spec's example \<open>[(None, "doc1"), (imgB, "")]\<close>.
\<close>

lemma collate_placeholder_first:
  "ignore_none_collate dc (Some [(None, ''doc1''), (Some imgB, [])])
     = except_AttributeError (dc [(zeros_like (imgB :: 'a::mult_zero tensor), ''doc1''), (imgB, [])])"
  by (simp add: ignore_none_collate_def collate_step_def tensor_mul_zero)

text \<open>
  Claim C2.  A name-bearing item with no valid item before it, in a batch with other raw
  items, is to give a zero placeholder of the shape of the first available image.  The
  code tests \<open>i > 0\<close> where the filtered list may still be empty, and reads the image
  of \<open>batch[1]\<close> only: after an unusable unnamed page the call raises \<open>IndexError\<close>,
  and before one it raises \<open>TypeError\<close>, although a later item has an image.
\<close>

theorem collate_placeholder_missed:
  "ignore_none_collate dc (Some [(None, []), (None, ''doc1''), (Some imgB, [])]) = Inl IndexError
   \<and> ignore_none_collate dc (Some [(None, ''doc1''), (None, []), (Some imgC, [])]) = Inl TypeError"
  by (simp add: ignore_none_collate_def collate_step_def except_AttributeError_def)

text \<open>
  A batch whose items all lack an image and a name gives the empty-batch signal.
\<close>

lemma collate_loop_all_unnamed:
  "list_all (\<lambda>x. fst x = None \<and> snd x = []) xs \<Longrightarrow> collate_loop batch i xs out = Inr out"
  by (induction xs arbitrary: i) (auto simp: collate_step_def)

lemma collate_all_unnamed_signal:
  "list_all (\<lambda>x. fst x = None \<and> snd x = []) b \<Longrightarrow> ignore_none_collate dc (Some b) = Inr NoneNone"
  by (simp add: ignore_none_collate_def collate_loop_all_unnamed)

text \<open>
  Claim C9.  A batch in which every image is absent is to give the empty-batch signal.
  When the second of two unusable pages carries the document name, the code reads
  \<open>_batch[-1]\<close> of the empty filtered list and the call raises \<open>IndexError\<close>.
\<close>

theorem collate_all_none_raises:
  "ignore_none_collate dc (Some [(None, []), (None, ''doc1'')]) = Inl IndexError"
  by (simp add: ignore_none_collate_def collate_step_def except_AttributeError_def)

section \<open>LazyDataset: rasterization, range and names\<close>

lemma getitem_rasterized:
  "lazy_rasterized (snd (LazyDataset_getitem op self i)) =
     lazy_rasterized self + (if i = 0 \<or> lazy_dataset self = None then 1 else 0)"
  by (simp add: LazyDataset_getitem_def Let_def split: option.splits)

lemma getitem_dataset:
  "lazy_dataset (snd (LazyDataset_getitem op self i)) =
     (if i = 0 \<or> lazy_dataset self = None then Some (lazy_init_fn self) else lazy_dataset self)"
  by (simp add: LazyDataset_getitem_def Let_def split: option.splits)

lemma gets_rasterized_held:
  "lazy_dataset self \<noteq> None \<Longrightarrow>
     lazy_rasterized (LazyDataset_gets op self idxs) = lazy_rasterized self + count_list idxs 0"
proof (induction idxs arbitrary: self)
  case Nil
  then show ?case by simp
next
  case (Cons i rest)
  have held: "lazy_dataset (snd (LazyDataset_getitem op self i)) \<noteq> None"
    using Cons.prems by (simp add: getitem_dataset)
  show ?case
    using Cons.IH [OF held] Cons.prems by (simp add: getitem_rasterized)
qed

text \<open>
  Claim C3, as stated, fails: on a fresh five-page document the accesses \<open>get(1)\<close>,
  \<open>get(0)\<close> rasterize twice, since every \<open>get(0)\<close> builds the page set again.
\<close>

theorem gets_rasterizes_twice:
  "lazy_rasterized (LazyDataset_gets ex_prepare ex_lazy [1, 0]) = 2"
  by (simp add: LazyDataset_getitem_def LazyDataset_init_def ex_lazy_def Let_def)

text \<open>
  Claim C3, amended.  A \<open>get(i)\<close> rasterizes exactly when \<open>i = 0\<close> or no page set is
  held.  So over any sequence of accesses the number of rasterizations is the number
  of \<open>get(0)\<close> calls, plus one when the object holds no page set and the first access
  is at a nonzero index; and a \<open>get(i)\<close> with \<open>i \<noteq> 0\<close> on an object that holds a page
  set reuses it and does not rasterize.
\<close>

theorem gets_rasterizations:
  "lazy_rasterized (LazyDataset_gets op self idxs) =
     lazy_rasterized self + count_list idxs 0
       + (if lazy_dataset self = None \<and> idxs \<noteq> [] \<and> hd idxs \<noteq> 0 then 1 else 0)
   \<and> (lazy_dataset self \<noteq> None \<and> i \<noteq> 0 \<longrightarrow>
        lazy_rasterized (snd (LazyDataset_getitem op self i)) = lazy_rasterized self
        \<and> lazy_dataset (snd (LazyDataset_getitem op self i)) = lazy_dataset self)"
proof (intro conjI impI)
  show "lazy_rasterized (LazyDataset_gets op self idxs) =
     lazy_rasterized self + count_list idxs 0
       + (if lazy_dataset self = None \<and> idxs \<noteq> [] \<and> hd idxs \<noteq> 0 then 1 else 0)"
  proof (cases idxs)
    case Nil
    then show ?thesis by simp
  next
    case (Cons j rest)
    have held: "lazy_dataset (snd (LazyDataset_getitem op self j)) \<noteq> None"
      by (simp add: getitem_dataset)
    show ?thesis
      using gets_rasterized_held [OF held, where idxs = rest and op = op] Cons
      by (simp add: getitem_rasterized)
  qed
next
  assume "lazy_dataset self \<noteq> None \<and> i \<noteq> 0"
  then show "lazy_rasterized (snd (LazyDataset_getitem op self i)) = lazy_rasterized self"
    by (simp add: getitem_rasterized)
next
  assume "lazy_dataset self \<noteq> None \<and> i \<noteq> 0"
  then show "lazy_dataset (snd (LazyDataset_getitem op self i)) = lazy_dataset self"
    by (simp add: getitem_dataset)
qed

theorem gets_rasterizations_witness:
  "lazy_rasterized (LazyDataset_gets ex_prepare ex_lazy [2, 0, 3, 0]) = 3
   \<and> lazy_dataset ex_lazy_held \<noteq> None \<and> (3::int) \<noteq> 0
   \<and> lazy_rasterized (snd (LazyDataset_getitem ex_prepare ex_lazy_held 3)) = 1
   \<and> lazy_dataset (snd (LazyDataset_getitem ex_prepare ex_lazy_held 3))
       = Some [10, 20, 30, 40, 50]"
  using gets_rasterizations [where op = ex_prepare and self = ex_lazy
      and idxs = "[2, 0, 3, 0]" and i = 3]
    gets_rasterizations [where op = ex_prepare and self = ex_lazy_held
      and idxs = "[]" and i = 3]
  by (simp add: ex_lazy_def ex_lazy_held_def LazyDataset_init_def)

text \<open>An index below zero or above the length raises \<open>IndexError\<close>.\<close>

lemma getitem_outside_raises:
  "i < 0 \<or> int (LazyDataset_len self) < i \<Longrightarrow>
     fst (LazyDataset_getitem op self i) = Inl IndexError"
  by (auto simp: LazyDataset_getitem_def LazyDataset_len_def Let_def)

text \<open>
  Claim C4.  Every index outside \<open>[0, length())\<close> is to raise an index error.  The
  range test of the code is \<open>i <= self.size\<close>, so \<open>get(length())\<close> passes it and
  returns a pair: on the five-page document, \<open>get(5)\<close> returns \<open>(None, "")\<close>, the
  image list's own \<open>IndexError\<close> being swallowed by \<open>ImageDataset.__getitem__\<close>.
\<close>

theorem getitem_at_length_returns:
  "(\<exists>r. fst (LazyDataset_getitem op self (int (LazyDataset_len self))) = Inr r)
   \<and> fst (LazyDataset_getitem ex_prepare ex_lazy 5) = Inr (None, [])"
  by (simp add: LazyDataset_getitem_def LazyDataset_init_def LazyDataset_len_def Let_def
      ImageDataset_getitem_def py_index_def ex_lazy_def split: option.splits)

text \<open>
  Claim C5.  For an in-range index \<open>i\<close> of a document with a (non-empty) name,
  \<open>get(i)\<close> returns a pair whose second component is the document name when
  \<open>i = length() - 1\<close> and the empty string otherwise; so it is non-empty exactly at
  the last page.
\<close>

theorem getitem_name_on_last_page:
  "0 \<le> i \<and> i < int (LazyDataset_len self) \<and> lazy_name self \<noteq> [] \<longrightarrow>
     (\<exists>img nm. fst (LazyDataset_getitem op self i) = Inr (img, nm)
        \<and> nm = (if i = int (LazyDataset_len self) - 1 then lazy_name self else [])
        \<and> (nm \<noteq> [] \<longleftrightarrow> i = int (LazyDataset_len self) - 1))"
  by (auto simp: LazyDataset_getitem_def LazyDataset_len_def Let_def split: option.splits)

theorem getitem_name_on_last_page_witness:
  "(0::int) \<le> 4 \<and> 4 < int (LazyDataset_len ex_lazy) \<and> lazy_name ex_lazy \<noteq> []
   \<and> fst (LazyDataset_getitem ex_prepare ex_lazy 4)
       = Inr (Some \<lparr>shape = [1], elems = [50]\<rparr>, ''doc.pdf'')
   \<and> fst (LazyDataset_getitem ex_prepare ex_lazy 3)
       = Inr (Some \<lparr>shape = [1], elems = [40]\<rparr>, [])"
  using getitem_name_on_last_page [where i = 4 and self = ex_lazy and op = ex_prepare]
    getitem_name_on_last_page [where i = 3 and self = ex_lazy and op = ex_prepare]
  by (simp add: LazyDataset_getitem_def LazyDataset_init_def LazyDataset_len_def Let_def
      ImageDataset_getitem_def py_index_def ex_lazy_def ex_prepare_def)

section \<open>SciPDFDataset: unavailable records and the index range\<close>





lemma ex_read4: "readline_at ex_env 4 = Inr (''good'' @ [CHR 0x0A])"
  by (simp add: readline_at_def ex_env_def Let_def)





lemma ex_sci_init: "SciPDFDataset_init ''data'' ''arxiv'' (Some [0, 4]) = Inr ex_sci"
  by (simp add: SciPDFDataset_init_def ex_sci_def)





text \<open>
  Claim C7, as stated, fails: on the store of two records \<open>__getitem__(-1)\<close> raises
  nothing and returns the last record, as Python's list indexing of the seek map does.
\<close>

theorem sci_negative_index_returns:
  "fst (SciPDFDataset_getitem ex_env ex_sci (- 1)) = Inr (Some ex_record)"
  by (simp add: SciPDFDataset_getitem_def ex_read4 ex_sci_def py_index_def)
     (simp add: ex_env_def ex_record_def json_pop_def dict_pop_def)

text \<open>
  Claim C7, amended.  \<open>__getitem__(index)\<close> raises \<open>IndexError\<close>, returning no record
  and leaving the object as it was, for every \<open>index \<ge> length()\<close> and every
  \<open>index < -length()\<close>; an index of \<open>[-length(), 0)\<close> counts from the end and does
  what \<open>index + length()\<close> does.
\<close>

theorem sci_index_range:
  "sci_dataset_length self = length (sci_seek_map self) \<longrightarrow>
     (int (SciPDFDataset_len self) \<le> index \<or> index < - int (SciPDFDataset_len self)
        \<longrightarrow> SciPDFDataset_getitem env self index = (Inl IndexError, self))
     \<and> (- int (SciPDFDataset_len self) \<le> index \<and> index < 0
        \<longrightarrow> SciPDFDataset_getitem env self index
              = SciPDFDataset_getitem env self (index + int (SciPDFDataset_len self)))"
  by (auto simp: SciPDFDataset_getitem_def SciPDFDataset_len_def py_index_def Let_def)

theorem sci_index_range_witness:
  "sci_dataset_length ex_sci = length (sci_seek_map ex_sci)
   \<and> SciPDFDataset_getitem ex_env ex_sci 2 = (Inl IndexError, ex_sci)
   \<and> SciPDFDataset_getitem ex_env ex_sci (- 3) = (Inl IndexError, ex_sci)
   \<and> SciPDFDataset_getitem ex_env ex_sci (- 2) = SciPDFDataset_getitem ex_env ex_sci 0"
  using sci_index_range [where self = ex_sci and index = 2 and env = ex_env]
    sci_index_range [where self = ex_sci and index = "- 3" and env = ex_env]
    sci_index_range [where self = ex_sci and index = "- 2" and env = ex_env]
  by (simp add: SciPDFDataset_len_def ex_sci_def)

section \<open>NougatDataset: retry on an empty sample, and the other splits\<close>

lemma ex_nougat_init:
  "NougatDataset_init ex_fs Map.empty ''list.txt'' ''sent'' ''img'' 4 split = Inr (ex_nougat split)"
  by (simp add: NougatDataset_init_def CustomDataset_init_def CustomDataset_len_def
      ex_fs_def ex_nougat_def)











declare perturb_loop.simps [simp del]

declare NougatDataset_getitem.simps [simp del]

lemma getitem_no_frames:
  "NougatDataset_getitem model fs self 0 t idx =
     (case CustomDataset_getitem fs (nougat_dataset self) idx of
        Inl e \<Rightarrow> Some (Inl e, t)
      | Inr None \<Rightarrow>
          (case randint 0 (int (nougat_dataset_length self) - 1) t of
             None \<Rightarrow> None
           | Some (Inl e) \<Rightarrow> Some (Inl e, t)
           | Some (Inr (j, t')) \<Rightarrow> Some (Inl RecursionError, t'))
      | Inr (Some smp) \<Rightarrow> NougatDataset_convert model self smp t)"
  by (subst NougatDataset_getitem.simps) (simp split: sum.splits option.splits prod.splits)

lemma getitem_frames:
  "NougatDataset_getitem model fs self (Suc k) t idx =
     (case CustomDataset_getitem fs (nougat_dataset self) idx of
        Inl e \<Rightarrow> Some (Inl e, t)
      | Inr None \<Rightarrow>
          (case randint 0 (int (nougat_dataset_length self) - 1) t of
             None \<Rightarrow> None
           | Some (Inl e) \<Rightarrow> Some (Inl e, t)
           | Some (Inr (j, t')) \<Rightarrow> NougatDataset_getitem model fs self k t' j)
      | Inr (Some smp) \<Rightarrow> NougatDataset_convert model self smp t)"
  by (subst NougatDataset_getitem.simps) (simp split: sum.splits option.splits prod.splits)

declare getitem_no_frames [simp] getitem_frames [simp]











text \<open>
  Claim C10.  For a split other than \<open>train\<close>, whatever the image-list file holds,
  the list-backed store reports length 0, and so does the \<open>NougatDataset\<close> built over
  it: iterating the store yields nothing and no index is in range.
\<close>

theorem other_split_is_empty:
  assumes "split \<noteq> ''train''"
    and "NougatDataset_init fs environ image_list_path sentences_path image_path max_length split
           = Inr self"
  shows "CustomDataset_len (nougat_dataset self) = 0
         \<and> fs_readlines fs image_list_path = Some (custom_img_list (nougat_dataset self))
         \<and> NougatDataset_len self = 0
         \<and> CustomDataset_iter fs (nougat_dataset self) = []
         \<and> (\<nexists>i. 0 \<le> i \<and> i < int (NougatDataset_len self))"
  using assms
  by (auto simp: NougatDataset_init_def CustomDataset_init_def CustomDataset_len_def
      NougatDataset_len_def CustomDataset_iter_def split: option.splits)

theorem other_split_is_empty_witness:
  "''validation'' \<noteq> ''train''
   \<and> NougatDataset_init ex_fs Map.empty ''list.txt'' ''sent'' ''img'' 4 ''validation''
       = Inr (ex_nougat ''validation'')
   \<and> length (custom_img_list (nougat_dataset (ex_nougat ''validation''))) = 2
   \<and> CustomDataset_len (nougat_dataset (ex_nougat ''validation'')) = 0
   \<and> NougatDataset_len (ex_nougat ''validation'') = 0
   \<and> CustomDataset_iter ex_fs (nougat_dataset (ex_nougat ''validation'')) = []"
proof -
  have ne: "''validation'' \<noteq> ''train''" by simp
  have two: "length (custom_img_list (nougat_dataset (ex_nougat ''validation''))) = 2"
    by (simp add: ex_nougat_def)
  from other_split_is_empty [OF ne ex_nougat_init] ne two show ?thesis
    by (simp add: ex_nougat_init)
qed

end
